theory Spec2Isabelle
  imports Complex_Main
begin

section \<open>Vectors and the FAISS primitives the vector store calls\<close>

text \<open>
  Embeddings are numpy float32 arrays; they are modelled over the reals, so rounding is
  not part of the model. A two-dimensional array keeps its second dimension separately
  from its rows, since \<open>shape[1]\<close> exists even when there are no rows.
\<close>

type_synonym vec = "real list"

record ndarray =
  shape1 :: nat
  rows :: "vec list"

definition shape0 :: "ndarray \<Rightarrow> nat" where
  "shape0 a = length (rows a)"

definition sqnorm :: "vec \<Rightarrow> real" where
  "sqnorm v = sum_list (map (\<lambda>x. x * x) v)"

definition dot :: "vec \<Rightarrow> vec \<Rightarrow> real" where
  "dot u v = sum_list (map (\<lambda>(a, b). a * b) (zip u v))"

definition l2sqr :: "vec \<Rightarrow> vec \<Rightarrow> real" where
  "l2sqr u v = sum_list (map (\<lambda>(a, b). (a - b) * (a - b)) (zip u v))"


text \<open>
  \<open>faiss.normalize_L2\<close> rescales a row by the inverse of its Euclidean norm and leaves
  a row of norm zero as it is.
\<close>

definition normalize_L2 :: "vec \<Rightarrow> vec" where
  "normalize_L2 v = (if 0 < sqnorm v then map (\<lambda>x. x / sqrt (sqnorm v)) v else v)"

text \<open>
  The index object: \<open>IndexHNSWFlat\<close> keeps the raw vectors in insertion order, and the
  label of a vector is its position. The proximity graph is not modelled; the graph
  search is a parameter \<open>hnsw\<close> of \<open>search\<close> below.
\<close>

record faiss_index =
  index_d :: nat
  xb :: "vec list"

definition ntotal :: "faiss_index \<Rightarrow> nat" where
  "ntotal ix = length (xb ix)"

definition IndexHNSWFlat :: "nat \<Rightarrow> faiss_index" where
  "IndexHNSWFlat dm = \<lparr>index_d = dm, xb = []\<rparr>"

datatype message =
  Number_of_embeddings_must_match_number_of_chunks
  | Embedding_dimension_must_be nat

datatype error =
  ValueError message | AssertionError | IndexError | OSError | RuntimeError | JSONDecodeError

text \<open>\<open>index.add\<close> asserts the dimension of the rows and appends them.\<close>

definition index_add :: "faiss_index \<Rightarrow> ndarray \<Rightarrow> error + faiss_index" where
  "index_add ix a =
     (if shape1 a \<noteq> index_d ix then Inl AssertionError
      else Inr (ix\<lparr>xb := xb ix @ rows a\<rparr>))"

text \<open>
  \<open>index.search\<close> for one query row: the wrapper asserts the dimension and \<open>k > 0\<close>,
  then the graph search returns \<open>k\<close> distances and \<open>k\<close> labels, nearest first, the label
  \<open>-1\<close> standing for a neighbour that was not found.
\<close>

type_synonym hnsw_search = "faiss_index \<Rightarrow> vec \<Rightarrow> nat \<Rightarrow> real list \<times> int list"

definition index_search ::
  "hnsw_search \<Rightarrow> faiss_index \<Rightarrow> vec \<Rightarrow> int \<Rightarrow> error + (real list \<times> int list)" where
  "index_search hnsw ix q k =
     (if length q \<noteq> index_d ix \<or> k \<le> 0 then Inl AssertionError
      else Inr (hnsw ix q (nat k)))"

text \<open>
  The exact search over the stored vectors, which the graph search approximates:
  squared Euclidean distances, ascending, ties in insertion order.
\<close>

definition flat_search :: hnsw_search where
  "flat_search ix q k =
     (let ranked = take k (sort_key fst (zip (map (l2sqr q) (xb ix)) (map int [0..<ntotal ix])))
      in (map fst ranked @ replicate (k - length ranked) 0,
          map snd ranked @ replicate (k - length ranked) (- 1)))"

section \<open>The vector store\<close>

record chunk =
  chunk_id :: nat
  file_id :: string
  content :: string
  chunk_index :: nat
  tokens :: nat

record document =
  filename :: string
  upload_date :: string
  num_chunks :: nat
  total_tokens :: nat

record VectorStore =
  dimension :: nat
  index :: faiss_index
  chunks :: "chunk list"
  metadata :: "string \<rightharpoonup> document"
  index_path :: string
  chunks_path :: string
  metadata_path :: string

record RetrievedChunk =
  hit_content :: string
  hit_score :: real
  hit_file_id :: string
  hit_chunk_index :: nat

text \<open>
  Python's truth value of an optional list, and \<open>xs[i]\<close> for a signed \<open>i\<close>: a negative
  index counts from the end, and an index outside the list raises.
\<close>

definition truthy :: "'a list option \<Rightarrow> bool" where
  "truthy xs = (case xs of None \<Rightarrow> False | Some l \<Rightarrow> l \<noteq> [])"

definition member_of :: "'a \<Rightarrow> 'a list option \<Rightarrow> bool" where
  "member_of x xs = (case xs of None \<Rightarrow> False | Some l \<Rightarrow> x \<in> set l)"

definition py_index :: "'a list \<Rightarrow> int \<Rightarrow> error + 'a" where
  "py_index xs i =
     (if 0 \<le> i \<and> i < int (length xs) then Inr (xs ! nat i)
      else if i < 0 \<and> - int (length xs) \<le> i then Inr (xs ! nat (int (length xs) + i))
      else Inl IndexError)"

text \<open>The result loop of \<open>search\<close>, with its \<open>continue\<close> and \<open>break\<close>.\<close>

fun build_results ::
  "chunk list \<Rightarrow> string list option \<Rightarrow> int \<Rightarrow> (real \<times> int) list \<Rightarrow> RetrievedChunk list
     \<Rightarrow> error + RetrievedChunk list" where
  "build_results cs file_ids top_k [] results = Inr results"
| "build_results cs file_ids top_k ((distance, idx) # rest) results =
     (if idx = - 1 then build_results cs file_ids top_k rest results
      else case py_index cs idx of
        Inl e \<Rightarrow> Inl e
      | Inr c \<Rightarrow>
          if truthy file_ids \<and> \<not> member_of (file_id c) file_ids
          then build_results cs file_ids top_k rest results
          else
            let similarity = 1 - distance / 2;
                results' = results @ [\<lparr>hit_content = content c, hit_score = similarity,
                                         hit_file_id = file_id c,
                                         hit_chunk_index = chunk_index c\<rparr>]
            in if top_k \<le> int (length results') then Inr results'
               else build_results cs file_ids top_k rest results')"

definition search ::
  "hnsw_search \<Rightarrow> VectorStore \<Rightarrow> vec \<Rightarrow> int \<Rightarrow> string list option
     \<Rightarrow> error + RetrievedChunk list" where
  "search hnsw s query_embedding top_k file_ids =
     (if ntotal (index s) = 0 then Inr []
      else
        let q = normalize_L2 query_embedding;
            k = (if truthy file_ids then top_k * 10 else top_k);
            k = min k (int (ntotal (index s)))
        in case index_search hnsw (index s) q k of
             Inl e \<Rightarrow> Inl e
           | Inr (distances, indices) \<Rightarrow>
               build_results (chunks s) file_ids top_k (zip distances indices) [])"


section \<open>Strings\<close>

text \<open>
  Python strings are sequences of code points; the model covers the code points below
  256, for which \<open>str.isspace\<close> holds of the characters listed here.
\<close>

definition isspace :: "char \<Rightarrow> bool" where
  "isspace c =
     (let n = (of_char c :: nat)
      in (9 \<le> n \<and> n \<le> 13) \<or> (28 \<le> n \<and> n \<le> 32) \<or> n = 133 \<or> n = 160)"

text \<open>\<open>s.split()\<close>: the maximal runs of characters that are not whitespace.\<close>

fun split_ws :: "string \<Rightarrow> string \<Rightarrow> string list" where
  "split_ws w [] = (if w = [] then [] else [w])"
| "split_ws w (c # cs) =
     (if isspace c then (if w = [] then split_ws [] cs else w # split_ws [] cs)
      else split_ws (w @ [c]) cs)"

definition py_split :: "string \<Rightarrow> string list" where
  "py_split s = split_ws [] s"

definition py_strip :: "string \<Rightarrow> string" where
  "py_strip s = rev (dropWhile isspace (rev (dropWhile isspace s)))"

fun join :: "string \<Rightarrow> string list \<Rightarrow> string" where
  "join sep [] = []"
| "join sep [x] = x"
| "join sep (x # y # zs) = x @ sep @ join sep (y # zs)"

section \<open>Persistence\<close>

text \<open>
  The disk maps a path to a file. \<open>faiss.write_index\<close> and \<open>open(path, 'w')\<close> followed
  by \<open>json.dump\<close> both open the destination itself for writing, which truncates it, and
  then write into it. A write can therefore succeed, fail before the file is opened, or
  fail after it was opened; in the last case the destination holds an incomplete file.
  Which of the three happens is decided by the environment, per path.
\<close>

datatype payload =
  IndexData faiss_index
  | ChunksData "chunk list"
  | MetadataData "string \<rightharpoonup> document"

datatype disk_file = Complete payload | Partial payload

datatype write_outcome = Written | OpenFails | WriteFails

type_synonym disk = "string \<rightharpoonup> disk_file"

definition write_file ::
  "error \<Rightarrow> string \<Rightarrow> payload \<Rightarrow> write_outcome \<Rightarrow> disk \<Rightarrow> (error + unit) \<times> disk" where
  "write_file err path p outcome dk =
     (case outcome of
        Written \<Rightarrow> (Inr (), dk(path \<mapsto> Complete p))
      | OpenFails \<Rightarrow> (Inl err, dk)
      | WriteFails \<Rightarrow> (Inl err, dk(path \<mapsto> Partial p)))"

definition save_all ::
  "(string \<Rightarrow> write_outcome) \<Rightarrow> VectorStore \<Rightarrow> disk \<Rightarrow> (error + unit) \<times> disk" where
  "save_all io s dk =
     (case write_file RuntimeError (index_path s) (IndexData (index s)) (io (index_path s)) dk of
        (Inl e, dk1) \<Rightarrow> (Inl e, dk1)
      | (Inr _, dk1) \<Rightarrow>
          (case write_file OSError (chunks_path s) (ChunksData (chunks s))
                  (io (chunks_path s)) dk1 of
             (Inl e, dk2) \<Rightarrow> (Inl e, dk2)
           | (Inr _, dk2) \<Rightarrow>
               write_file OSError (metadata_path s) (MetadataData (metadata s))
                 (io (metadata_path s)) dk2))"

definition load_chunks :: "VectorStore \<Rightarrow> disk \<Rightarrow> error + VectorStore" where
  "load_chunks s dk =
     (case dk (chunks_path s) of
        None \<Rightarrow> Inr s
      | Some (Complete (ChunksData cs)) \<Rightarrow> Inr (s\<lparr>chunks := cs\<rparr>)
      | Some _ \<Rightarrow> Inl JSONDecodeError)"

definition load_metadata :: "VectorStore \<Rightarrow> disk \<Rightarrow> error + VectorStore" where
  "load_metadata s dk =
     (case dk (metadata_path s) of
        None \<Rightarrow> Inr (s\<lparr>metadata := Map.empty\<rparr>)
      | Some (Complete (MetadataData m)) \<Rightarrow> Inr (s\<lparr>metadata := m\<rparr>)
      | Some _ \<Rightarrow> Inl JSONDecodeError)"

definition initialize_index :: "VectorStore \<Rightarrow> disk \<Rightarrow> error + VectorStore" where
  "initialize_index s dk =
     (case dk (index_path s) of
        Some (Complete (IndexData ix)) \<Rightarrow>
          (case load_chunks (s\<lparr>index := ix\<rparr>) dk of
             Inl e \<Rightarrow> Inl e
           | Inr s1 \<Rightarrow> load_metadata s1 dk)
      | Some _ \<Rightarrow> Inl RuntimeError
      | None \<Rightarrow> Inr (s\<lparr>index := IndexHNSWFlat (dimension s)\<rparr>))"

text \<open>
  \<open>os.path.join\<close> of a directory and a relative file name, and the constructor;
  \<open>vector_db_path\<close> is \<open>settings.VECTOR_DB_PATH\<close>.
\<close>

definition path_join :: "string \<Rightarrow> string \<Rightarrow> string" where
  "path_join a b =
     (if a = [] then b else if last a = CHR ''/'' then a @ b else a @ ''/'' @ b)"

definition VectorStore_init :: "string \<Rightarrow> disk \<Rightarrow> error + VectorStore" where
  "VectorStore_init vector_db_path dk =
     initialize_index
       \<lparr>dimension = 1536, index = IndexHNSWFlat 1536, chunks = [], metadata = Map.empty,
        index_path = path_join vector_db_path ''index.faiss'',
        chunks_path = path_join vector_db_path ''chunks.json'',
        metadata_path = path_join vector_db_path ''metadata.json''\<rparr> dk"

section \<open>Adding and deleting documents\<close>

text \<open>
  A mutating method returns its outcome together with the store and the disk as it leaves
  them: an exception does not undo the assignments made before it was raised. \<open>now\<close> is
  the value of \<open>datetime.utcnow().isoformat()\<close>.
\<close>

definition new_chunks :: "string \<Rightarrow> nat \<Rightarrow> string list \<Rightarrow> chunk list" where
  "new_chunks fid start_idx cks =
     map (\<lambda>(i, chunk_text).
            \<lparr>chunk_id = start_idx + i, file_id = fid, content = chunk_text,
             chunk_index = i, tokens = length (py_split chunk_text)\<rparr>)
         (enumerate 0 cks)"

definition add_chunks ::
  "string \<Rightarrow> string \<Rightarrow> string list \<Rightarrow> ndarray \<Rightarrow> string \<Rightarrow> (string \<Rightarrow> write_outcome)
     \<Rightarrow> VectorStore \<Rightarrow> disk \<Rightarrow> (error + unit) \<times> VectorStore \<times> disk" where
  "add_chunks fid fname cks embeddings now io s dk =
     (if shape0 embeddings \<noteq> length cks
      then (Inl (ValueError Number_of_embeddings_must_match_number_of_chunks), s, dk)
      else if shape1 embeddings \<noteq> dimension s
      then (Inl (ValueError (Embedding_dimension_must_be (dimension s))), s, dk)
      else
        let embeddings = embeddings\<lparr>rows := map normalize_L2 (rows embeddings)\<rparr>;
            start_idx = length (chunks s)
        in case index_add (index s) embeddings of
             Inl e \<Rightarrow> (Inl e, s, dk)
           | Inr ix \<Rightarrow>
               let s1 = s\<lparr>index := ix\<rparr>;
                   s2 = s1\<lparr>chunks := chunks s1 @ new_chunks fid start_idx cks\<rparr>;
                   s3 = s2\<lparr>metadata := (metadata s2)(fid \<mapsto>
                          \<lparr>filename = fname, upload_date = now, num_chunks = length cks,
                           total_tokens = sum_list (map (\<lambda>c. length (py_split c)) cks)\<rparr>)\<rparr>
               in case save_all io s3 dk of (r, dk') \<Rightarrow> (r, s3, dk'))"

text \<open>
  \<open>_rebuild_index\<close> installs a new, empty index and the given chunk list; it does not add
  any vector to the new index.
\<close>

definition rebuild_index ::
  "chunk list \<Rightarrow> (string \<Rightarrow> write_outcome) \<Rightarrow> VectorStore \<Rightarrow> disk
     \<Rightarrow> (error + unit) \<times> VectorStore \<times> disk" where
  "rebuild_index cks io s dk =
     (let new_index = IndexHNSWFlat (dimension s);
          s1 = s\<lparr>index := new_index\<rparr>;
          s2 = s1\<lparr>chunks := cks\<rparr>
      in case save_all io s2 dk of (r, dk') \<Rightarrow> (r, s2, dk'))"

definition delete_document ::
  "string \<Rightarrow> (string \<Rightarrow> write_outcome) \<Rightarrow> VectorStore \<Rightarrow> disk
     \<Rightarrow> (error + unit) \<times> VectorStore \<times> disk" where
  "delete_document fid io s dk =
     (let remaining_chunks = filter (\<lambda>c. file_id c \<noteq> fid) (chunks s)
      in if length remaining_chunks = length (chunks s) then (Inr (), s, dk)
         else
           let s1 = (if fid \<in> dom (metadata s)
                     then s\<lparr>metadata := (metadata s)(fid := None)\<rparr> else s)
           in rebuild_index remaining_chunks io s1 dk)"

section \<open>The chunker\<close>

text \<open>
  \<open>splitter\<close> is \<open>RecursiveCharacterTextSplitter.split_text\<close>, a library function, taken
  as a parameter. \<open>post_process\<close> is the loop of \<open>chunk_text\<close> over its pieces.
\<close>

fun post_process :: "string list \<Rightarrow> string list \<Rightarrow> string list" where
  "post_process [] processed_chunks = processed_chunks"
| "post_process (c # rest) processed_chunks =
     (let c' = join '' '' (py_split c)
      in if length c' < 50 then post_process rest processed_chunks
         else post_process rest (processed_chunks @ [c']))"

definition chunk_text :: "(string \<Rightarrow> string list) \<Rightarrow> string \<Rightarrow> string list" where
  "chunk_text splitter text =
     (if text = [] \<or> py_strip text = [] then []
      else post_process (splitter text) [])"

section \<open>Conversation history\<close>

text \<open>
  \<open>xs[-n:]\<close> in Python and \<open>xs.slice(-n)\<close> in TypeScript, for positive \<open>n\<close>: the last
  \<open>n\<close> elements, or all of them when there are fewer.
\<close>

definition slice_last :: "nat \<Rightarrow> 'a list \<Rightarrow> 'a list" where
  "slice_last n xs = drop (length xs - n) xs"

record Message =
  msg_id :: string
  msg_role :: string
  msg_content :: string

record ChatRequest =
  req_query :: string
  req_history :: "(string \<times> string) list"
  req_use_rag :: bool
  req_file_ids :: "string list option"

text \<open>The request body that \<open>handleSend\<close> of the chat container posts.\<close>

definition handleSend_request :: "Message list \<Rightarrow> string option \<Rightarrow> string \<Rightarrow> ChatRequest" where
  "handleSend_request messages activeFileId text =
     \<lparr>req_query = text,
      req_history = map (\<lambda>m. (msg_role m, msg_content m)) (slice_last 10 messages),
      req_use_rag = True,
      req_file_ids = (case activeFileId of
                        Some f \<Rightarrow> (if f = [] then None else Some [f])
                      | None \<Rightarrow> None)\<rparr>"

text \<open>
  The messages that \<open>stream_chat_response\<close> prepares for generation. The sections of the
  user message are kept as values; their rendering by \<open>ToonFormatter\<close> is not modelled.
\<close>

datatype payload_section =
  HISTORY "(string \<times> string) list"
  | CONTENT "RetrievedChunk list"
  | QUERY string

datatype chat_message = system string | user "payload_section list"

definition stream_chat_response_messages ::
  "string \<Rightarrow> string \<Rightarrow> (string \<times> string) list \<Rightarrow> string \<Rightarrow> RetrievedChunk list
     \<Rightarrow> chat_message list" where
  "stream_chat_response_messages SYSTEM_PROMPT q hist current_summary context_chunks =
     (let messages = [system SYSTEM_PROMPT];
          messages = (if current_summary \<noteq> []
                      then messages @ [system (''PREVIOUS_RECAP: '' @ current_summary)]
                      else messages);
          input_payload = [];
          input_payload = (if hist \<noteq> []
                           then input_payload @ [HISTORY (slice_last 10 hist)]
                           else input_payload);
          input_payload = (if context_chunks \<noteq> []
                           then input_payload @ [CONTENT context_chunks]
                           else input_payload);
          input_payload = input_payload @ [QUERY q]
      in messages @ [user input_payload])"

text \<open>What generation receives: the verbatim turns and the recap.\<close>

fun verbatim_turns :: "chat_message list \<Rightarrow> (string \<times> string) list" where
  "verbatim_turns [] = []"
| "verbatim_turns (system _ # ms) = verbatim_turns ms"
| "verbatim_turns (user secs # ms) =
     concat (map (\<lambda>sec. case sec of HISTORY h \<Rightarrow> h | _ \<Rightarrow> []) secs) @ verbatim_turns ms"

definition recap_messages :: "chat_message list \<Rightarrow> chat_message list" where
  "recap_messages ms = tl (filter (\<lambda>m. case m of system _ \<Rightarrow> True | user _ \<Rightarrow> False) ms)"

section \<open>Notions used to state the properties\<close>

text \<open>
  The number of neighbours \<open>search\<close> asks the index for, the hits the index returns for
  a call of \<open>search\<close>, and what it means for one result to be built from one hit.
\<close>

definition the_k :: "VectorStore \<Rightarrow> int \<Rightarrow> string list option \<Rightarrow> int" where
  "the_k s top_k file_ids =
     min (if truthy file_ids then top_k * 10 else top_k) (int (ntotal (index s)))"

definition index_hits ::
  "hnsw_search \<Rightarrow> VectorStore \<Rightarrow> vec \<Rightarrow> int \<Rightarrow> string list option \<Rightarrow> (real \<times> int) list" where
  "index_hits hnsw s q top_k file_ids =
     (case hnsw (index s) (normalize_L2 q) (nat (the_k s top_k file_ids)) of
        (distances, indices) \<Rightarrow> zip distances indices)"

definition from_hit ::
  "chunk list \<Rightarrow> string list option \<Rightarrow> real \<times> int \<Rightarrow> RetrievedChunk \<Rightarrow> bool" where
  "from_hit cs file_ids h r =
     (snd h \<noteq> - 1 \<and>
      (case py_index cs (snd h) of
         Inl e \<Rightarrow> False
       | Inr c \<Rightarrow>
           r = \<lparr>hit_content = content c, hit_score = 1 - fst h / 2,
                hit_file_id = file_id c, hit_chunk_index = chunk_index c\<rparr>
           \<and> (truthy file_ids \<longrightarrow> member_of (file_id c) file_ids)))"



text \<open>
  The stores that a successful \<open>add_chunks\<close> and a \<open>delete_document\<close> of a document with
  chunks leave in memory.
\<close>

definition inserted ::
  "string \<Rightarrow> string \<Rightarrow> string list \<Rightarrow> ndarray \<Rightarrow> string \<Rightarrow> VectorStore \<Rightarrow> VectorStore" where
  "inserted fid fname cks e now s =
     s\<lparr>index := (index s)\<lparr>xb := xb (index s) @ map normalize_L2 (rows e)\<rparr>,
       chunks := chunks s @ new_chunks fid (length (chunks s)) cks,
       metadata := (metadata s)(fid \<mapsto>
          \<lparr>filename = fname, upload_date = now, num_chunks = length cks,
           total_tokens = sum_list (map (\<lambda>c. length (py_split c)) cks)\<rparr>)\<rparr>"

definition removed :: "string \<Rightarrow> VectorStore \<Rightarrow> VectorStore" where
  "removed fid s =
     s\<lparr>metadata := (metadata s)(fid := None),
       index := IndexHNSWFlat (dimension s),
       chunks := filter (\<lambda>c. file_id c \<noteq> fid) (chunks s)\<rparr>"

text \<open>
  The chunk list and the index agree: as many chunks as vectors, and the id of a chunk is
  its position, which is the label of its vector.
\<close>

definition aligned :: "VectorStore \<Rightarrow> bool" where
  "aligned s = (length (chunks s) = ntotal (index s)
                \<and> map chunk_id (chunks s) = [0..<length (chunks s)])"

section \<open>Concrete stores and inputs\<close>

text \<open>
  Embeddings of the configured dimension 1536 that lie on the first coordinate axis, the
  store of a first start, and stores reached from it by the operations themselves.
\<close>

definition axis :: "real \<Rightarrow> vec" where
  "axis a = a # replicate 1535 0"

definition plane :: "real \<Rightarrow> real \<Rightarrow> vec" where
  "plane a b = a # b # replicate 1534 0"

definition one_row :: "real \<Rightarrow> ndarray" where
  "one_row a = \<lparr>shape1 = 1536, rows = [axis a]\<rparr>"

definition all_written :: "string \<Rightarrow> write_outcome" where
  "all_written p = Written"

definition chunks_write_fails :: "string \<Rightarrow> write_outcome" where
  "chunks_write_fails p = (if p = ''./vector_store/chunks.json'' then WriteFails else Written)"

definition index_write_fails :: "string \<Rightarrow> write_outcome" where
  "index_write_fails p = (if p = ''./vector_store/index.faiss'' then WriteFails else Written)"

definition fresh_store :: VectorStore where
  "fresh_store =
     \<lparr>dimension = 1536, index = IndexHNSWFlat 1536, chunks = [], metadata = Map.empty,
      index_path = ''./vector_store/index.faiss'',
      chunks_path = ''./vector_store/chunks.json'',
      metadata_path = ''./vector_store/metadata.json''\<rparr>"

definition store_A :: VectorStore where
  "store_A = fst (snd (add_chunks ''doc-A'' ''a.txt'' [''alpha''] (one_row 1)
      ''2025-12-27T10:00:00'' all_written fresh_store Map.empty))"

definition store_AB :: VectorStore where
  "store_AB = fst (snd (add_chunks ''doc-B'' ''b.txt'' [''beta''] (one_row 1)
      ''2025-12-27T11:00:00'' all_written store_A Map.empty))"

definition store_B_left :: VectorStore where
  "store_B_left = fst (snd (delete_document ''doc-A'' all_written store_AB Map.empty))"

definition store_B_C :: VectorStore where
  "store_B_C = fst (snd (add_chunks ''doc-C'' ''c.txt'' [''gamma''] (one_row (- 1))
      ''2025-12-27T12:00:00'' all_written store_B_left Map.empty))"



definition crowded_store :: VectorStore where
  "crowded_store =
     fst (snd (add_chunks ''doc-B'' ''b.txt'' [''beta''] (one_row (- 1)) ''2025-12-27T11:00:00''
       all_written
       (fst (snd (add_chunks ''doc-A'' ''a.txt'' (replicate 10 ''alpha'')
          \<lparr>shape1 = 1536, rows = replicate 10 (axis 1)\<rparr> ''2025-12-27T10:00:00''
          all_written fresh_store Map.empty)))
       Map.empty))"

definition sentence :: string where
  "sentence = ''Recursive chunking should split at paragraph boundaries first.''"

definition eleven_messages :: "Message list" where
  "eleven_messages =
     map (\<lambda>i. \<lparr>msg_id = ''user-1735293600000'', msg_role = ''user'', msg_content = ''hi''\<rparr>)
       [0..<11::nat]"

section \<open>Vector arithmetic\<close>

lemma sqnorm_nonneg: "0 \<le> sqnorm v"
  unfolding sqnorm_def by (induction v) auto

lemma sqnorm_scale: "sqnorm (map (\<lambda>x. x / c) v) = sqnorm v / (c * c)"
  unfolding sqnorm_def by (induction v) (auto simp: add_divide_distrib)

lemma sqnorm_normalize_L2: "0 < sqnorm v \<Longrightarrow> sqnorm (normalize_L2 v) = 1"
  by (simp add: normalize_L2_def sqnorm_scale)

lemma sqnorm_normalize_L2_le: "sqnorm (normalize_L2 v) \<le> 1"
  using sqnorm_nonneg [of v] by (cases "0 < sqnorm v") (simp_all add: sqnorm_normalize_L2, simp add: normalize_L2_def)









section \<open>The result loop and the index contract\<close>

lemma build_results_sound:
  "build_results cs f k hits acc = Inr rs \<Longrightarrow> r \<in> set rs \<Longrightarrow>
     r \<in> set acc \<or> (\<exists>h \<in> set hits. from_hit cs f h r)"
proof (induction cs f k hits acc rule: build_results.induct)
  case (1 cs f k acc)
  then show ?case by simp
next
  case (2 cs f k d l rest acc)
  show ?case
  proof (cases "l = - 1")
    case True
    with 2 show ?thesis by auto
  next
    case False
    note nl = False
    show ?thesis
    proof (cases "py_index cs l")
      case (Inl e)
      with 2 nl show ?thesis by simp
    next
      case (Inr c)
      let ?r = "\<lparr>hit_content = content c, hit_score = 1 - d / 2,
                hit_file_id = file_id c, hit_chunk_index = chunk_index c\<rparr>"
      show ?thesis
      proof (cases "truthy f \<and> \<not> member_of (file_id c) f")
        case True
        with 2 nl Inr show ?thesis by auto
      next
        case False
        have fh: "from_hit cs f (d, l) ?r"
          using nl Inr False by (auto simp: from_hit_def)
        show ?thesis
        proof (cases "k \<le> int (length (acc @ [?r]))")
          case True
          with "2.prems" nl Inr False have "r \<in> set (acc @ [?r])" by (auto simp: Let_def)
          with fh show ?thesis by auto
        next
          case br: False
          have "build_results cs f k rest (acc @ [?r]) = Inr rs"
            using "2.prems"(1) nl Inr False br by (simp add: Let_def)
          from "2.IH"(3) [OF nl Inr False refl refl br this "2.prems"(2)]
          show ?thesis using fh by auto
        qed
      qed
    qed
  qed
qed

lemma build_results_length:
  "build_results cs f k hits acc = Inr rs \<Longrightarrow> length rs \<le> length acc + length hits"
proof (induction cs f k hits acc arbitrary: rs rule: build_results.induct)
  case (1 cs f k acc)
  then show ?case by simp
next
  case (2 cs f k d l rest acc)
  then show ?case
    by (fastforce simp: Let_def split: if_splits sum.splits)
qed

lemma search_sound:
  assumes "search hnsw s q top_k f = Inr rs" and "r \<in> set rs"
  shows "\<exists>h \<in> set (case hnsw (index s) (normalize_L2 q) (nat (the_k s top_k f)) of
                     (distances, indices) \<Rightarrow> zip distances indices).
           from_hit (chunks s) f h r"
proof (cases "ntotal (index s) = 0")
  case True
  with assms show ?thesis by (simp add: search_def)
next
  case False
  obtain ds ls where h: "hnsw (index s) (normalize_L2 q) (nat (the_k s top_k f)) = (ds, ls)"
    by (cases "hnsw (index s) (normalize_L2 q) (nat (the_k s top_k f))")
  from assms(1) False h have "build_results (chunks s) f top_k (zip ds ls) [] = Inr rs"
    by (auto simp: search_def the_k_def index_search_def Let_def split: if_splits)
  from build_results_sound [OF this assms(2)] h show ?thesis by simp
qed

lemma search_hit:
  assumes "search hnsw s q top_k f = Inr rs" and "r \<in> set rs"
  shows "\<exists>h \<in> set (index_hits hnsw s q top_k f). from_hit (chunks s) f h r"
  using search_sound [OF assms] by (simp add: index_hits_def)









lemma search_no_vectors:
  "ntotal (index s) = 0 \<Longrightarrow> search hnsw s q top_k f = Inr []"
  by (simp add: search_def)

section \<open>Persistence and the mutating operations\<close>

lemma write_file_other: "p \<noteq> path \<Longrightarrow> snd (write_file err path pl outcome dk) p = dk p"
  by (simp add: write_file_def split: write_outcome.splits)

lemma write_file_ok: "fst (write_file err path pl outcome dk) = Inr () \<longleftrightarrow> outcome = Written"
  by (simp add: write_file_def split: write_outcome.splits)

lemma save_all_other:
  "p \<notin> {index_path s, chunks_path s, metadata_path s} \<Longrightarrow> snd (save_all io s dk) p = dk p"
  by (auto simp: save_all_def write_file_def split: write_outcome.splits prod.splits sum.splits)

lemma save_all_ok:
  "fst (save_all io s dk) = Inr () \<longleftrightarrow>
     io (index_path s) = Written \<and> io (chunks_path s) = Written \<and> io (metadata_path s) = Written"
  by (auto simp: save_all_def write_file_def split: write_outcome.splits prod.splits sum.splits)

lemma save_all_error:
  "fst (save_all io s dk) = Inl e \<Longrightarrow> e = RuntimeError \<or> e = OSError"
  by (auto simp: save_all_def write_file_def split: write_outcome.splits prod.splits sum.splits)

lemma save_all_index_partial:
  "io (index_path s) = WriteFails \<Longrightarrow>
     save_all io s dk = (Inl RuntimeError, dk(index_path s \<mapsto> Partial (IndexData (index s))))"
  by (simp add: save_all_def write_file_def)

lemma save_all_cases:
  "save_all io t dk =
     (case io (index_path t) of
        OpenFails \<Rightarrow> (Inl RuntimeError, dk)
      | WriteFails \<Rightarrow> (Inl RuntimeError, dk(index_path t \<mapsto> Partial (IndexData (index t))))
      | Written \<Rightarrow>
          (case io (chunks_path t) of
             OpenFails \<Rightarrow> (Inl OSError, dk(index_path t \<mapsto> Complete (IndexData (index t))))
           | WriteFails \<Rightarrow>
               (Inl OSError, dk(index_path t \<mapsto> Complete (IndexData (index t)),
                                chunks_path t \<mapsto> Partial (ChunksData (chunks t))))
           | Written \<Rightarrow>
               (case io (metadata_path t) of
                  OpenFails \<Rightarrow>
                    (Inl OSError, dk(index_path t \<mapsto> Complete (IndexData (index t)),
                                     chunks_path t \<mapsto> Complete (ChunksData (chunks t))))
                | WriteFails \<Rightarrow>
                    (Inl OSError, dk(index_path t \<mapsto> Complete (IndexData (index t)),
                                     chunks_path t \<mapsto> Complete (ChunksData (chunks t)),
                                     metadata_path t \<mapsto> Partial (MetadataData (metadata t))))
                | Written \<Rightarrow>
                    (Inr (), dk(index_path t \<mapsto> Complete (IndexData (index t)),
                                chunks_path t \<mapsto> Complete (ChunksData (chunks t)),
                                metadata_path t \<mapsto> Complete (MetadataData (metadata t)))))))"
  by (simp add: save_all_def write_file_def split: write_outcome.splits)

lemma add_chunks_valid:
  assumes "shape0 e = length cks" "shape1 e = dimension s" "index_d (index s) = dimension s"
  shows "add_chunks fid fname cks e now io s dk =
           (fst (save_all io (inserted fid fname cks e now s) dk),
            inserted fid fname cks e now s,
            snd (save_all io (inserted fid fname cks e now s) dk))"
  using assms
  by (simp add: add_chunks_def index_add_def inserted_def Let_def split: prod.splits)

lemma inserted_paths:
  "index_path (inserted fid fname cks e now s) = index_path s"
  "chunks_path (inserted fid fname cks e now s) = chunks_path s"
  "metadata_path (inserted fid fname cks e now s) = metadata_path s"
  by (simp_all add: inserted_def)

lemma add_chunks_ValueError:
  "(\<exists>m. fst (add_chunks fid fname cks e now io s dk) = Inl (ValueError m)) \<longleftrightarrow>
     (shape0 e \<noteq> length cks \<or> shape1 e \<noteq> dimension s)"
proof (cases "shape0 e \<noteq> length cks \<or> shape1 e \<noteq> dimension s")
  case True
  then show ?thesis by (auto simp: add_chunks_def)
next
  case False
  have "fst (add_chunks fid fname cks e now io s dk) \<noteq> Inl (ValueError m)" for m
  proof (cases "index_d (index s) = dimension s")
    case True
    with False have eq: "fst (add_chunks fid fname cks e now io s dk)
        = fst (save_all io (inserted fid fname cks e now s) dk)"
      by (simp add: add_chunks_valid)
    show ?thesis using save_all_error [of io "inserted fid fname cks e now s" dk "ValueError m"]
      unfolding eq by auto
  next
    case f: False
    with False show ?thesis by (simp add: add_chunks_def index_add_def)
  qed
  with False show ?thesis by blast
qed

lemma add_chunks_memory:
  "fst (snd (add_chunks fid fname cks e now io s dk)) =
   fst (snd (add_chunks fid fname cks e now io' s dk))"
  by (simp add: add_chunks_def Let_def split: sum.splits prod.splits)

lemma delete_document_memory:
  "fst (snd (delete_document fid io s dk)) = fst (snd (delete_document fid io' s dk))"
  by (simp add: delete_document_def rebuild_index_def Let_def split: prod.splits)

lemma add_chunks_other_paths:
  assumes "p \<notin> {index_path s, chunks_path s, metadata_path s}"
  shows "snd (snd (add_chunks fid fname cks e now io s dk)) p = dk p"
proof (cases "shape0 e = length cks \<and> shape1 e = dimension s \<and> index_d (index s) = dimension s")
  case True
  then show ?thesis
    using save_all_other [of p "inserted fid fname cks e now s" io dk] assms
    by (simp add: add_chunks_valid inserted_paths)
next
  case False
  then show ?thesis by (auto simp: add_chunks_def index_add_def)
qed

lemma add_chunks_stores_normalized:
  assumes "shape0 e = length cks" "shape1 e = dimension s" "index_d (index s) = dimension s"
  shows "xb (index (fst (snd (add_chunks fid fname cks e now io s dk))))
           = xb (index s) @ map normalize_L2 (rows e)"
  by (simp add: add_chunks_valid [OF assms] inserted_def)

lemma add_chunks_unchanged:
  "\<not> (shape0 e = length cks \<and> shape1 e = dimension s \<and> index_d (index s) = dimension s) \<Longrightarrow>
     fst (snd (add_chunks fid fname cks e now io s dk)) = s"
  by (auto simp: add_chunks_def index_add_def)

lemma add_chunks_keeps_norm_bound:
  assumes "\<forall>v \<in> set (xb (index s)). sqnorm v \<le> 1"
  shows "\<forall>v \<in> set (xb (index (fst (snd (add_chunks fid fname cks e now io s dk))))). sqnorm v \<le> 1"
proof (cases "shape0 e = length cks \<and> shape1 e = dimension s \<and> index_d (index s) = dimension s")
  case True
  then have "xb (index (fst (snd (add_chunks fid fname cks e now io s dk))))
      = xb (index s) @ map normalize_L2 (rows e)"
    by (simp add: add_chunks_stores_normalized)
  with assms show ?thesis by (auto simp: sqnorm_normalize_L2_le)
next
  case False
  with assms show ?thesis by (simp add: add_chunks_unchanged)
qed

lemma delete_document_present:
  assumes "fid \<in> file_id ` set (chunks s)"
  shows "fst (snd (delete_document fid io s dk)) =
           s\<lparr>index := IndexHNSWFlat (dimension s),
             chunks := filter (\<lambda>c. file_id c \<noteq> fid) (chunks s),
             metadata := (metadata s)(fid := None)\<rparr>"
proof -
  from assms obtain c where "c \<in> set (chunks s)" "\<not> file_id c \<noteq> fid" by auto
  then have "length (filter (\<lambda>c. file_id c \<noteq> fid) (chunks s)) < length (chunks s)"
    by (rule length_filter_less)
  then have ne: "length (filter (\<lambda>c. file_id c \<noteq> fid) (chunks s)) \<noteq> length (chunks s)" by simp
  have "(metadata s)(fid := None) = metadata s" if "fid \<notin> dom (metadata s)"
    using that by (auto simp: fun_eq_iff)
  then show ?thesis using ne
    by (auto simp: delete_document_def rebuild_index_def Let_def split: prod.splits)
qed

lemma delete_document_absent:
  "fid \<notin> file_id ` set (chunks s) \<Longrightarrow> delete_document fid io s dk = (Inr (), s, dk)"
proof -
  assume "fid \<notin> file_id ` set (chunks s)"
  then have "filter (\<lambda>c. file_id c \<noteq> fid) (chunks s) = chunks s"
    by (auto simp: filter_id_conv)
  then show ?thesis by (simp add: delete_document_def)
qed

lemma removed_paths:
  "index_path (removed fid s) = index_path s"
  "chunks_path (removed fid s) = chunks_path s"
  "metadata_path (removed fid s) = metadata_path s"
  by (simp_all add: removed_def)

lemma delete_document_valid:
  assumes "fid \<in> file_id ` set (chunks s)"
  shows "delete_document fid io s dk =
           (fst (save_all io (removed fid s) dk), removed fid s,
            snd (save_all io (removed fid s) dk))"
proof -
  from assms obtain c where "c \<in> set (chunks s)" "\<not> file_id c \<noteq> fid" by auto
  then have "length (filter (\<lambda>c. file_id c \<noteq> fid) (chunks s)) < length (chunks s)"
    by (rule length_filter_less)
  then have ne: "length (filter (\<lambda>c. file_id c \<noteq> fid) (chunks s)) \<noteq> length (chunks s)" by simp
  have "(metadata s)(fid := None) = metadata s" if "fid \<notin> dom (metadata s)"
    using that by (auto simp: fun_eq_iff)
  then show ?thesis using ne
    by (auto simp: delete_document_def rebuild_index_def removed_def Let_def split: prod.splits)
qed

lemma delete_document_other_paths:
  assumes "p \<notin> {index_path s, chunks_path s, metadata_path s}"
  shows "snd (snd (delete_document fid io s dk)) p = dk p"
proof (cases "fid \<in> file_id ` set (chunks s)")
  case True
  then show ?thesis
    using save_all_other [of p "removed fid s" io dk] assms
    by (simp add: delete_document_valid removed_paths)
next
  case False
  then show ?thesis by (simp add: delete_document_absent)
qed

lemma delete_document_ok:
  assumes "fid \<in> file_id ` set (chunks s)"
  shows "fst (delete_document fid io s dk) = Inr () \<longleftrightarrow>
     io (index_path s) = Written \<and> io (chunks_path s) = Written \<and> io (metadata_path s) = Written"
  using save_all_ok [of io "removed fid s" dk]
  by (simp add: delete_document_valid [OF assms] removed_paths)

section \<open>Evaluating the concrete stores\<close>

lemma VectorStore_init_fresh: "VectorStore_init ''./vector_store'' Map.empty = Inr fresh_store"
  by (simp add: VectorStore_init_def initialize_index_def fresh_store_def path_join_def)

lemma sum_list_replicate_zero: "sum_list (replicate n (0::real)) = 0"
  by (induction n) auto

lemma length_axis: "length (axis a) = 1536"
  by (simp add: axis_def)

lemma sqnorm_axis: "sqnorm (axis a) = a * a"
  by (simp add: axis_def sqnorm_def sum_list_replicate_zero)

lemma l2sqr_axis: "l2sqr (axis a) (axis b) = (a - b) * (a - b)"
  by (simp add: axis_def l2sqr_def zip_replicate sum_list_replicate_zero)

lemma normalize_L2_axis_1: "normalize_L2 (axis 1) = axis 1"
  by (simp add: normalize_L2_def sqnorm_axis)

lemma normalize_L2_axis_m1: "normalize_L2 (axis (- 1)) = axis (- 1)"
  by (simp add: normalize_L2_def sqnorm_axis)






lemma dot_plane: "dot (plane a b) (plane c d) = a * c + b * d"
  by (simp add: plane_def dot_def zip_replicate sum_list_replicate_zero)






lemmas eval_defs = add_chunks_def fresh_store_def shape0_def index_add_def IndexHNSWFlat_def
      normalize_L2_axis_1 normalize_L2_axis_m1 new_chunks_def enumerate_eq_zip py_split_def isspace_def save_all_def
      write_file_def all_written_def one_row_def

lemma store_A_index: "xb (index store_A) = [axis 1]" "index_d (index store_A) = 1536"
  by (simp_all add: store_A_def eval_defs)

lemma store_A_chunks: "chunks store_A =
    [\<lparr>chunk_id = 0, file_id = ''doc-A'', content = ''alpha'', chunk_index = 0, tokens = 1\<rparr>]"
  by (simp add: store_A_def eval_defs)

lemma store_A_dimension: "dimension store_A = 1536"
  by (simp add: store_A_def eval_defs)

lemma store_AB_index: "xb (index store_AB) = [axis 1, axis 1]" "index_d (index store_AB) = 1536"
  by (simp_all add: store_AB_def add_chunks_def store_A_index store_A_dimension store_A_chunks
     shape0_def index_add_def one_row_def normalize_L2_axis_1 save_all_def write_file_def all_written_def)

lemma store_AB_chunks: "chunks store_AB =
    [\<lparr>chunk_id = 0, file_id = ''doc-A'', content = ''alpha'', chunk_index = 0, tokens = 1\<rparr>,
     \<lparr>chunk_id = 1, file_id = ''doc-B'', content = ''beta'', chunk_index = 0, tokens = 1\<rparr>]"
  by (simp add: store_AB_def add_chunks_def store_A_index store_A_dimension store_A_chunks
     shape0_def index_add_def one_row_def normalize_L2_axis_1 save_all_def write_file_def all_written_def
     new_chunks_def enumerate_eq_zip py_split_def isspace_def)

lemma store_AB_dimension: "dimension store_AB = 1536"
  by (simp add: store_AB_def add_chunks_def store_A_index store_A_dimension
     shape0_def index_add_def one_row_def save_all_def write_file_def all_written_def)

lemma doc_A_in_AB: "''doc-A'' \<in> file_id ` set (chunks store_AB)"
  by (simp add: store_AB_chunks)

lemma store_B_left_index: "xb (index store_B_left) = []" "index_d (index store_B_left) = 1536"
  by (simp_all add: store_B_left_def delete_document_present [OF doc_A_in_AB] IndexHNSWFlat_def store_AB_dimension)

lemma store_B_left_chunks: "chunks store_B_left =
    [\<lparr>chunk_id = 1, file_id = ''doc-B'', content = ''beta'', chunk_index = 0, tokens = 1\<rparr>]"
  by (simp add: store_B_left_def delete_document_present [OF doc_A_in_AB] store_AB_chunks)

lemma store_B_left_dimension: "dimension store_B_left = 1536"
  by (simp add: store_B_left_def delete_document_present [OF doc_A_in_AB] store_AB_dimension)

lemma store_B_C_index: "xb (index store_B_C) = [axis (- 1)]" "index_d (index store_B_C) = 1536"
  by (simp_all add: store_B_C_def add_chunks_def store_B_left_index store_B_left_dimension
     shape0_def index_add_def one_row_def normalize_L2_axis_m1 save_all_def write_file_def all_written_def)

lemma store_B_C_chunks: "chunks store_B_C =
    [\<lparr>chunk_id = 1, file_id = ''doc-B'', content = ''beta'', chunk_index = 0, tokens = 1\<rparr>,
     \<lparr>chunk_id = 1, file_id = ''doc-C'', content = ''gamma'', chunk_index = 0, tokens = 1\<rparr>]"
  by (simp add: store_B_C_def add_chunks_def store_B_left_index store_B_left_dimension store_B_left_chunks
     shape0_def index_add_def one_row_def save_all_def write_file_def all_written_def
     new_chunks_def enumerate_eq_zip py_split_def isspace_def)

lemma store_AB_paths:
  "index_path store_AB = ''./vector_store/index.faiss''"
  "chunks_path store_AB = ''./vector_store/chunks.json''"
  "metadata_path store_AB = ''./vector_store/metadata.json''"
  by (simp_all add: store_AB_def store_A_def add_chunks_memory [of _ _ _ _ _ all_written _ _ all_written]
        add_chunks_def fresh_store_def shape0_def index_add_def IndexHNSWFlat_def one_row_def
        save_all_def write_file_def all_written_def Let_def split: prod.splits)

lemma removed_doc_A:
  "index (removed ''doc-A'' store_AB) = IndexHNSWFlat 1536"
  "chunks (removed ''doc-A'' store_AB) =
     [\<lparr>chunk_id = 1, file_id = ''doc-B'', content = ''beta'', chunk_index = 0, tokens = 1\<rparr>]"
  by (simp_all add: removed_def store_AB_dimension store_AB_chunks)






lemmas search_eval = search_def ntotal_def normalize_L2_axis_1 normalize_L2_axis_m1 index_search_def length_axis
   flat_search_def l2sqr_axis truthy_def member_of_def py_index_def

lemma replicate_10: "replicate 10 x = [x, x, x, x, x, x, x, x, x, x]"
  by (simp add: eval_nat_numeral)

lemma crowded_index: "xb (index crowded_store) =
   [axis 1, axis 1, axis 1, axis 1, axis 1, axis 1, axis 1, axis 1, axis 1, axis 1, axis (- 1)]"
   "index_d (index crowded_store) = 1536"
  by (simp_all add: crowded_store_def eval_defs replicate_10)

lemma crowded_chunks: "chunks crowded_store =
   [\<lparr>chunk_id = 0, file_id = ''doc-A'', content = ''alpha'', chunk_index = 0, tokens = 1\<rparr>,
    \<lparr>chunk_id = 1, file_id = ''doc-A'', content = ''alpha'', chunk_index = 1, tokens = 1\<rparr>,
    \<lparr>chunk_id = 2, file_id = ''doc-A'', content = ''alpha'', chunk_index = 2, tokens = 1\<rparr>,
    \<lparr>chunk_id = 3, file_id = ''doc-A'', content = ''alpha'', chunk_index = 3, tokens = 1\<rparr>,
    \<lparr>chunk_id = 4, file_id = ''doc-A'', content = ''alpha'', chunk_index = 4, tokens = 1\<rparr>,
    \<lparr>chunk_id = 5, file_id = ''doc-A'', content = ''alpha'', chunk_index = 5, tokens = 1\<rparr>,
    \<lparr>chunk_id = 6, file_id = ''doc-A'', content = ''alpha'', chunk_index = 6, tokens = 1\<rparr>,
    \<lparr>chunk_id = 7, file_id = ''doc-A'', content = ''alpha'', chunk_index = 7, tokens = 1\<rparr>,
    \<lparr>chunk_id = 8, file_id = ''doc-A'', content = ''alpha'', chunk_index = 8, tokens = 1\<rparr>,
    \<lparr>chunk_id = 9, file_id = ''doc-A'', content = ''alpha'', chunk_index = 9, tokens = 1\<rparr>,
    \<lparr>chunk_id = 10, file_id = ''doc-B'', content = ''beta'', chunk_index = 0, tokens = 1\<rparr>]"
  by (simp add: crowded_store_def eval_defs replicate_10 upt_rec_numeral)

lemma crowded_search:
  "search flat_search crowded_store (axis 1) 1 (Some [''doc-B'']) = Inr []"
  by (simp add: search_eval crowded_index crowded_chunks upt_rec_numeral)

lemma crowded_filtered_hit:
  "search flat_search crowded_store (axis (- 1)) 1 (Some [''doc-B'']) =
     Inr [\<lparr>hit_content = ''beta'', hit_score = 1, hit_file_id = ''doc-B'', hit_chunk_index = 0\<rparr>]"
  by (simp add: search_eval crowded_index crowded_chunks upt_rec_numeral)

section \<open>Chunk ids and positions\<close>

lemma map_add_upt_from: "map ((+) st) [n..<n + k] = [st + n..<st + n + k]"
  by (induction k) simp_all

lemma chunk_id_enumerate:
  "map (\<lambda>p. st + fst p) (enumerate n cks) = [st + n..<st + n + length cks]"
proof -
  have "map (\<lambda>p. st + fst p) (enumerate n cks) = map ((+) st) (map fst (enumerate n cks))"
    by (simp only: map_map comp_def)
  also have "\<dots> = map ((+) st) [n..<n + length cks]"
    by (simp only: map_fst_enumerate)
  finally show ?thesis by (simp only: map_add_upt_from)
qed

lemma chunk_id_new_chunks: "map chunk_id (new_chunks fid st cks) = [st..<st + length cks]"
proof -
  have "map chunk_id (new_chunks fid st cks) = map (\<lambda>p. st + fst p) (enumerate 0 cks)"
    by (simp add: new_chunks_def split_def comp_def)
  with chunk_id_enumerate [of st 0 cks] show ?thesis by simp
qed

lemma length_new_chunks: "length (new_chunks fid st cks) = length cks"
  by (simp add: new_chunks_def)

lemma aligned_inserted:
  assumes "aligned s" "length (rows e) = length cks"
  shows "aligned (inserted fid fname cks e now s)"
proof -
  let ?s = "inserted fid fname cks e now s"
  have c: "chunks ?s = chunks s @ new_chunks fid (length (chunks s)) cks"
    by (simp add: inserted_def)
  have x: "xb (index ?s) = xb (index s) @ map normalize_L2 (rows e)"
    by (simp add: inserted_def)
  from assms(1) have a1: "length (chunks s) = length (xb (index s))"
    and a2: "map chunk_id (chunks s) = [0..<length (chunks s)]"
    by (simp_all add: aligned_def ntotal_def)
  have l: "length (chunks ?s) = length (chunks s) + length cks"
    by (simp only: c length_append length_new_chunks)
  have l': "ntotal (index ?s) = length (chunks s) + length cks"
    by (simp only: ntotal_def x length_append length_map a1 assms(2))
  have "map chunk_id (chunks ?s)
      = map chunk_id (chunks s) @ map chunk_id (new_chunks fid (length (chunks s)) cks)"
    by (simp only: c map_append)
  also have "\<dots> = [0..<length (chunks s)] @ [length (chunks s)..<length (chunks s) + length cks]"
    by (simp only: a2 chunk_id_new_chunks)
  also have "\<dots> = [0..<length (chunks s) + length cks]"
    using upt_add_eq_append [of 0 "length (chunks s)" "length cks"] by simp
  finally have m: "map chunk_id (chunks ?s) = [0..<length (chunks ?s)]"
    by (simp only: l)
  from l l' m show ?thesis by (simp only: aligned_def)
qed


lemma add_chunks_aligned:
  assumes "aligned s" "fst (add_chunks fid fname cks e now io s dk) = Inr ()"
  shows "aligned (fst (snd (add_chunks fid fname cks e now io s dk)))"
proof -
  from assms(2) have v: "shape0 e = length cks" "shape1 e = dimension s"
      "index_d (index s) = dimension s"
    by (auto simp: add_chunks_def index_add_def split: if_splits)
  from v(1) have "length (rows e) = length cks" by (simp add: shape0_def)
  from aligned_inserted [OF assms(1) this] show ?thesis
    by (simp add: add_chunks_valid [OF v])
qed

lemma aligned_fresh: "aligned fresh_store"
  by (simp add: aligned_def fresh_store_def ntotal_def IndexHNSWFlat_def)

lemma not_aligned_after_delete: "\<not> aligned store_B_left"
  by (simp add: aligned_def store_B_left_chunks)

section \<open>Chunker and history helpers\<close>

lemma post_process_filter:
  "post_process cs acc = acc @ filter (\<lambda>c. 50 \<le> length c) (map (\<lambda>c. join '' '' (py_split c)) cs)"
  by (induction cs arbitrary: acc) (auto simp: Let_def)

lemma chunk_text_sentence: "chunk_text (\<lambda>t. [t, ''tail'']) sentence = [sentence]"
  by (simp add: chunk_text_def py_strip_def py_split_def isspace_def sentence_def)

lemma length_slice_last: "length (slice_last n xs) = min (length xs) n"
  by (simp add: slice_last_def)

lemma length_eleven: "length eleven_messages = 11"
  by (simp add: eleven_messages_def)

section \<open>Searching an empty index\<close>

text \<open>
  C9. For every query vector, every \<open>top_k\<close> and every document filter, \<open>search\<close> on a
  store whose index holds no vector returns the empty result list, and no error.
\<close>

theorem search_empty_index:
  "ntotal (index s) = 0 \<Longrightarrow> search hnsw s query_embedding top_k file_ids = Inr []"
  by (simp add: search_def)

theorem search_empty_index_witness:
  "ntotal (index fresh_store) = 0 \<and> search flat_search fresh_store (axis 1) 3 None = Inr []"
  using search_empty_index [of fresh_store flat_search "axis 1" 3 None]
  by (simp add: fresh_store_def ntotal_def IndexHNSWFlat_def)

section \<open>Deleting a document\<close>

text \<open>
  C1, as the code has it. When the document has chunks in the store, \<open>delete_document\<close>
  leaves an index without any vector and the chunk list without the chunks of that
  document, whatever the outcome of the writes. Every search in that store therefore
  returns the empty list: no result belongs to the deleted document, and none belongs to
  any other document either.
\<close>

theorem delete_document_empties_index:
  assumes "fid \<in> file_id ` set (chunks s)"
  shows "ntotal (index (fst (snd (delete_document fid io s dk)))) = 0
    \<and> chunks (fst (snd (delete_document fid io s dk))) = filter (\<lambda>c. file_id c \<noteq> fid) (chunks s)
    \<and> fid \<notin> file_id ` set (chunks (fst (snd (delete_document fid io s dk))))
    \<and> search hnsw (fst (snd (delete_document fid io s dk))) q top_k f = Inr []"
proof -
  have n: "ntotal (index (fst (snd (delete_document fid io s dk)))) = 0"
    by (simp add: delete_document_present [OF assms] ntotal_def IndexHNSWFlat_def)
  have c: "chunks (fst (snd (delete_document fid io s dk))) = filter (\<lambda>c. file_id c \<noteq> fid) (chunks s)"
    by (simp add: delete_document_present [OF assms])
  have "fid \<notin> file_id ` set (filter (\<lambda>c. file_id c \<noteq> fid) (chunks s))" by auto
  with n c search_no_vectors [OF n] show ?thesis by simp
qed

theorem delete_document_empties_index_witness:
  "''doc-A'' \<in> file_id ` set (chunks store_AB)
   \<and> ntotal (index store_B_left) = 0
   \<and> chunks store_B_left = filter (\<lambda>c. file_id c \<noteq> ''doc-A'') (chunks store_AB)
   \<and> search flat_search store_B_left (axis 1) 2 None = Inr []"
  using delete_document_empties_index [OF doc_A_in_AB, of all_written Map.empty flat_search "axis 1" 2 None]
    doc_A_in_AB
  unfolding store_B_left_def by blast

text \<open>
  C1 as stated fails. With one chunk of document A and one of document B stored, a search
  returns both chunks; after \<open>delete_document\<close> of A the same search returns nothing, so
  the result that belonged to the unaffected document B is gone.
\<close>

theorem delete_document_loses_other_documents:
  "search flat_search store_AB (axis 1) 2 None =
     Inr [\<lparr>hit_content = ''alpha'', hit_score = 1, hit_file_id = ''doc-A'', hit_chunk_index = 0\<rparr>,
          \<lparr>hit_content = ''beta'', hit_score = 1, hit_file_id = ''doc-B'', hit_chunk_index = 0\<rparr>]
   \<and> search flat_search store_B_left (axis 1) 2 None = Inr []"
  by (simp add: search_eval store_AB_index store_AB_chunks store_B_left_index)

text \<open>
  C2 at a concrete store. After documents A and B were added with one chunk each, chunk
  ids and positions agree. After A was deleted they do not: the remaining chunk of B keeps
  the id 1 at position 0 of the chunk list while the index holds no vector. Adding document C then gives its chunk the id 1 as
  well, stores its vector under label 0, and a search for that very vector returns the
  chunk of B.
\<close>

theorem delete_document_breaks_positions:
  "aligned store_AB \<and> \<not> aligned store_B_left
   \<and> map chunk_id (chunks store_B_left) = [1] \<and> ntotal (index store_B_left) = 0
   \<and> map chunk_id (chunks store_B_C) = [1, 1]
   \<and> search flat_search store_B_C (axis (- 1)) 1 None =
       Inr [\<lparr>hit_content = ''beta'', hit_score = 1, hit_file_id = ''doc-B'', hit_chunk_index = 0\<rparr>]"
  by (simp add: search_eval store_B_left_index store_B_left_chunks store_B_C_index store_B_C_chunks
        aligned_def store_AB_index store_AB_chunks upt_rec_numeral)

section \<open>Persistence failures\<close>

text \<open>
  C3, as the code has it. Whatever the outcome of the writes, \<open>add_chunks\<close> and
  \<open>delete_document\<close> leave in memory the store that the run with successful writes
  leaves. A valid \<open>add_chunks\<close>, and a \<open>delete_document\<close> of a document with chunks,
  return that store together with the outcome and the disk of \<open>save_all\<close>, so the
  operation returns without error exactly when the three writes succeed. \<open>save_all\<close>
  writes the index file, then the chunks file, then the metadata file, each to its
  destination path, and stops at the first write that fails: the files written before it
  are complete at their destinations, the failing file is untouched when it could not be
  opened and incomplete at its destination when the write failed after opening, and the
  files after it are not written. No other path of the disk changes.
\<close>

theorem write_failure_keeps_memory:
  "fst (snd (add_chunks fid fname cks e now io s dk)) =
     fst (snd (add_chunks fid fname cks e now all_written s dk))
   \<and> fst (snd (delete_document fid io s dk)) = fst (snd (delete_document fid all_written s dk))
   \<and> (shape0 e = length cks \<and> shape1 e = dimension s \<and> index_d (index s) = dimension s \<longrightarrow>
        add_chunks fid fname cks e now io s dk =
          (fst (save_all io (inserted fid fname cks e now s) dk),
           inserted fid fname cks e now s,
           snd (save_all io (inserted fid fname cks e now s) dk)))
   \<and> (fid \<in> file_id ` set (chunks s) \<longrightarrow>
        delete_document fid io s dk =
          (fst (save_all io (removed fid s) dk), removed fid s,
           snd (save_all io (removed fid s) dk)))
   \<and> save_all io t dk =
     (case io (index_path t) of
        OpenFails \<Rightarrow> (Inl RuntimeError, dk)
      | WriteFails \<Rightarrow> (Inl RuntimeError, dk(index_path t \<mapsto> Partial (IndexData (index t))))
      | Written \<Rightarrow>
          (case io (chunks_path t) of
             OpenFails \<Rightarrow> (Inl OSError, dk(index_path t \<mapsto> Complete (IndexData (index t))))
           | WriteFails \<Rightarrow>
               (Inl OSError, dk(index_path t \<mapsto> Complete (IndexData (index t)),
                                chunks_path t \<mapsto> Partial (ChunksData (chunks t))))
           | Written \<Rightarrow>
               (case io (metadata_path t) of
                  OpenFails \<Rightarrow>
                    (Inl OSError, dk(index_path t \<mapsto> Complete (IndexData (index t)),
                                     chunks_path t \<mapsto> Complete (ChunksData (chunks t))))
                | WriteFails \<Rightarrow>
                    (Inl OSError, dk(index_path t \<mapsto> Complete (IndexData (index t)),
                                     chunks_path t \<mapsto> Complete (ChunksData (chunks t)),
                                     metadata_path t \<mapsto> Partial (MetadataData (metadata t))))
                | Written \<Rightarrow>
                    (Inr (), dk(index_path t \<mapsto> Complete (IndexData (index t)),
                                chunks_path t \<mapsto> Complete (ChunksData (chunks t)),
                                metadata_path t \<mapsto> Complete (MetadataData (metadata t)))))))
   \<and> (shape0 e = length cks \<and> shape1 e = dimension s \<and> index_d (index s) = dimension s \<longrightarrow>
        (fst (add_chunks fid fname cks e now io s dk) = Inr () \<longleftrightarrow>
           io (index_path s) = Written \<and> io (chunks_path s) = Written
           \<and> io (metadata_path s) = Written))
   \<and> (fid \<in> file_id ` set (chunks s) \<longrightarrow>
        (fst (delete_document fid io s dk) = Inr () \<longleftrightarrow>
           io (index_path s) = Written \<and> io (chunks_path s) = Written
           \<and> io (metadata_path s) = Written))
   \<and> (\<forall>p. p \<notin> {index_path s, chunks_path s, metadata_path s} \<longrightarrow>
          snd (snd (add_chunks fid fname cks e now io s dk)) p = dk p
          \<and> snd (snd (delete_document fid io s dk)) p = dk p)
   \<and> (shape0 e = length cks \<and> shape1 e = dimension s \<and> index_d (index s) = dimension s
        \<and> io (index_path s) = WriteFails \<longrightarrow>
          (\<exists>ix. snd (snd (add_chunks fid fname cks e now io s dk)) (index_path s)
                  = Some (Partial (IndexData ix))))"
proof (intro conjI)
  show "fst (snd (add_chunks fid fname cks e now io s dk)) =
     fst (snd (add_chunks fid fname cks e now all_written s dk))"
    by (rule add_chunks_memory)
  show "fst (snd (delete_document fid io s dk)) = fst (snd (delete_document fid all_written s dk))"
    by (rule delete_document_memory)
  show "shape0 e = length cks \<and> shape1 e = dimension s \<and> index_d (index s) = dimension s \<longrightarrow>
        add_chunks fid fname cks e now io s dk =
          (fst (save_all io (inserted fid fname cks e now s) dk),
           inserted fid fname cks e now s,
           snd (save_all io (inserted fid fname cks e now s) dk))"
    using add_chunks_valid by blast
  show "fid \<in> file_id ` set (chunks s) \<longrightarrow>
        delete_document fid io s dk =
          (fst (save_all io (removed fid s) dk), removed fid s,
           snd (save_all io (removed fid s) dk))"
    using delete_document_valid by blast
  show "save_all io t dk =
     (case io (index_path t) of
        OpenFails \<Rightarrow> (Inl RuntimeError, dk)
      | WriteFails \<Rightarrow> (Inl RuntimeError, dk(index_path t \<mapsto> Partial (IndexData (index t))))
      | Written \<Rightarrow>
          (case io (chunks_path t) of
             OpenFails \<Rightarrow> (Inl OSError, dk(index_path t \<mapsto> Complete (IndexData (index t))))
           | WriteFails \<Rightarrow>
               (Inl OSError, dk(index_path t \<mapsto> Complete (IndexData (index t)),
                                chunks_path t \<mapsto> Partial (ChunksData (chunks t))))
           | Written \<Rightarrow>
               (case io (metadata_path t) of
                  OpenFails \<Rightarrow>
                    (Inl OSError, dk(index_path t \<mapsto> Complete (IndexData (index t)),
                                     chunks_path t \<mapsto> Complete (ChunksData (chunks t))))
                | WriteFails \<Rightarrow>
                    (Inl OSError, dk(index_path t \<mapsto> Complete (IndexData (index t)),
                                     chunks_path t \<mapsto> Complete (ChunksData (chunks t)),
                                     metadata_path t \<mapsto> Partial (MetadataData (metadata t))))
                | Written \<Rightarrow>
                    (Inr (), dk(index_path t \<mapsto> Complete (IndexData (index t)),
                                chunks_path t \<mapsto> Complete (ChunksData (chunks t)),
                                metadata_path t \<mapsto> Complete (MetadataData (metadata t)))))))"
    by (rule save_all_cases)
  show "shape0 e = length cks \<and> shape1 e = dimension s \<and> index_d (index s) = dimension s \<longrightarrow>
        (fst (add_chunks fid fname cks e now io s dk) = Inr () \<longleftrightarrow>
           io (index_path s) = Written \<and> io (chunks_path s) = Written
           \<and> io (metadata_path s) = Written)"
    using save_all_ok [of io "inserted fid fname cks e now s" dk]
    by (simp add: add_chunks_valid inserted_paths)
  show "fid \<in> file_id ` set (chunks s) \<longrightarrow>
        (fst (delete_document fid io s dk) = Inr () \<longleftrightarrow>
           io (index_path s) = Written \<and> io (chunks_path s) = Written
           \<and> io (metadata_path s) = Written)"
    using delete_document_ok by blast
  show "\<forall>p. p \<notin> {index_path s, chunks_path s, metadata_path s} \<longrightarrow>
          snd (snd (add_chunks fid fname cks e now io s dk)) p = dk p
          \<and> snd (snd (delete_document fid io s dk)) p = dk p"
    using add_chunks_other_paths delete_document_other_paths by blast
  show "shape0 e = length cks \<and> shape1 e = dimension s \<and> index_d (index s) = dimension s
        \<and> io (index_path s) = WriteFails \<longrightarrow>
          (\<exists>ix. snd (snd (add_chunks fid fname cks e now io s dk)) (index_path s)
                  = Some (Partial (IndexData ix)))"
    using save_all_index_partial [of io "inserted fid fname cks e now s" dk]
    by (simp add: add_chunks_valid inserted_paths)
qed

theorem write_failure_keeps_memory_witness:
  "shape0 (one_row 1) = length [''alpha''] \<and> shape1 (one_row 1) = dimension fresh_store
   \<and> index_d (index fresh_store) = dimension fresh_store
   \<and> index_write_fails (index_path fresh_store) = WriteFails
   \<and> fst (snd (add_chunks ''doc-A'' ''a.txt'' [''alpha''] (one_row 1) ''2025-12-27T10:00:00''
             index_write_fails fresh_store Map.empty)) = store_A
   \<and> fst (add_chunks ''doc-A'' ''a.txt'' [''alpha''] (one_row 1) ''2025-12-27T10:00:00''
             index_write_fails fresh_store Map.empty) \<noteq> Inr ()
   \<and> ''/tmp/index.faiss.tmp'' \<notin> {index_path fresh_store, chunks_path fresh_store,
                                     metadata_path fresh_store}
   \<and> snd (snd (add_chunks ''doc-A'' ''a.txt'' [''alpha''] (one_row 1) ''2025-12-27T10:00:00''
             index_write_fails fresh_store Map.empty)) ''/tmp/index.faiss.tmp'' = None
   \<and> (\<exists>ix. snd (snd (add_chunks ''doc-A'' ''a.txt'' [''alpha''] (one_row 1)
               ''2025-12-27T10:00:00'' index_write_fails fresh_store Map.empty))
               (index_path fresh_store) = Some (Partial (IndexData ix)))
   \<and> ''doc-A'' \<in> file_id ` set (chunks store_AB)
   \<and> fst (delete_document ''doc-A'' chunks_write_fails store_AB Map.empty) = Inl OSError
   \<and> fst (snd (delete_document ''doc-A'' chunks_write_fails store_AB Map.empty)) = store_B_left
   \<and> snd (snd (delete_document ''doc-A'' chunks_write_fails store_AB Map.empty))
        ''./vector_store/index.faiss'' = Some (Complete (IndexData (IndexHNSWFlat 1536)))
   \<and> snd (snd (delete_document ''doc-A'' chunks_write_fails store_AB Map.empty))
        ''./vector_store/chunks.json''
        = Some (Partial (ChunksData
            [\<lparr>chunk_id = 1, file_id = ''doc-B'', content = ''beta'', chunk_index = 0, tokens = 1\<rparr>]))
   \<and> snd (snd (delete_document ''doc-A'' chunks_write_fails store_AB Map.empty))
        ''./vector_store/metadata.json'' = None"
proof -
  note A = write_failure_keeps_memory [of "''doc-A''" "''a.txt''" "[''alpha'']" "one_row 1"
      "''2025-12-27T10:00:00''" index_write_fails fresh_store Map.empty]
  have v: "shape0 (one_row 1) = length [''alpha'']" "shape1 (one_row 1) = dimension fresh_store"
      "index_d (index fresh_store) = dimension fresh_store"
    by (simp_all add: one_row_def shape0_def fresh_store_def IndexHNSWFlat_def)
  have w: "index_write_fails (index_path fresh_store) = WriteFails"
    by (simp add: index_write_fails_def fresh_store_def)
  have p: "''/tmp/index.faiss.tmp'' \<notin> {index_path fresh_store, chunks_path fresh_store,
                                     metadata_path fresh_store}"
    by (simp add: fresh_store_def)
  from A [THEN conjunct1] have am: "fst (snd (add_chunks ''doc-A'' ''a.txt'' [''alpha''] (one_row 1)
      ''2025-12-27T10:00:00'' index_write_fails fresh_store Map.empty)) = store_A"
    by (simp add: store_A_def)
  from A [THEN conjunct2, THEN conjunct2, THEN conjunct2, THEN conjunct2, THEN conjunct2,
      THEN conjunct1] v w
  have ar: "fst (add_chunks ''doc-A'' ''a.txt'' [''alpha''] (one_row 1) ''2025-12-27T10:00:00''
             index_write_fails fresh_store Map.empty) \<noteq> Inr ()"
    by simp
  from A [THEN conjunct2, THEN conjunct2, THEN conjunct2, THEN conjunct2, THEN conjunct2,
      THEN conjunct2, THEN conjunct2, THEN conjunct1] p
  have ao: "snd (snd (add_chunks ''doc-A'' ''a.txt'' [''alpha''] (one_row 1) ''2025-12-27T10:00:00''
             index_write_fails fresh_store Map.empty)) ''/tmp/index.faiss.tmp'' = None"
    by simp
  from A [THEN conjunct2, THEN conjunct2, THEN conjunct2, THEN conjunct2, THEN conjunct2,
      THEN conjunct2, THEN conjunct2, THEN conjunct2] v w
  have ap: "\<exists>ix. snd (snd (add_chunks ''doc-A'' ''a.txt'' [''alpha''] (one_row 1)
               ''2025-12-27T10:00:00'' index_write_fails fresh_store Map.empty))
               (index_path fresh_store) = Some (Partial (IndexData ix))"
    by blast

  note T = write_failure_keeps_memory [where fid = "''doc-A''" and io = chunks_write_fails
      and s = store_AB and dk = Map.empty and t = "removed ''doc-A'' store_AB"]
  note pr = doc_A_in_AB
  from T [THEN conjunct2, THEN conjunct1]
  have m: "fst (snd (delete_document ''doc-A'' chunks_write_fails store_AB Map.empty)) = store_B_left"
    by (simp add: store_B_left_def)
  from T [THEN conjunct2, THEN conjunct2, THEN conjunct2, THEN conjunct1] pr
  have d: "delete_document ''doc-A'' chunks_write_fails store_AB Map.empty =
      (fst (save_all chunks_write_fails (removed ''doc-A'' store_AB) Map.empty),
       removed ''doc-A'' store_AB,
       snd (save_all chunks_write_fails (removed ''doc-A'' store_AB) Map.empty))"
    by blast
  from T [THEN conjunct2, THEN conjunct2, THEN conjunct2, THEN conjunct2, THEN conjunct1]
  have sv: "save_all chunks_write_fails (removed ''doc-A'' store_AB) Map.empty =
      (Inl OSError,
       [''./vector_store/index.faiss'' \<mapsto> Complete (IndexData (IndexHNSWFlat 1536)),
        ''./vector_store/chunks.json'' \<mapsto> Partial (ChunksData
            [\<lparr>chunk_id = 1, file_id = ''doc-B'', content = ''beta'', chunk_index = 0,
              tokens = 1\<rparr>])])"
    by (simp add: removed_paths store_AB_paths chunks_write_fails_def removed_doc_A)
  have dl: "''doc-A'' \<in> file_id ` set (chunks store_AB)
   \<and> fst (delete_document ''doc-A'' chunks_write_fails store_AB Map.empty) = Inl OSError
   \<and> fst (snd (delete_document ''doc-A'' chunks_write_fails store_AB Map.empty)) = store_B_left
   \<and> snd (snd (delete_document ''doc-A'' chunks_write_fails store_AB Map.empty))
        ''./vector_store/index.faiss'' = Some (Complete (IndexData (IndexHNSWFlat 1536)))
   \<and> snd (snd (delete_document ''doc-A'' chunks_write_fails store_AB Map.empty))
        ''./vector_store/chunks.json''
        = Some (Partial (ChunksData
            [\<lparr>chunk_id = 1, file_id = ''doc-B'', content = ''beta'', chunk_index = 0, tokens = 1\<rparr>]))
   \<and> snd (snd (delete_document ''doc-A'' chunks_write_fails store_AB Map.empty))
        ''./vector_store/metadata.json'' = None"
    unfolding d sv using pr m [unfolded d sv] by simp
  from v w am ar p ao ap dl show ?thesis by blast
qed

text \<open>
  C3 as stated fails. On a first start, with the write of \<open>chunks.json\<close> failing after
  the file was opened, \<open>add_chunks\<close> raises the error and the destination path
  \<open>chunks.json\<close> itself holds an incomplete file: the data was not written to a
  temporary file and renamed.
\<close>

theorem save_all_leaves_partial_file:
  "fst (add_chunks ''doc-A'' ''a.txt'' [''alpha''] (one_row 1) ''2025-12-27T10:00:00''
          chunks_write_fails fresh_store Map.empty) = Inl OSError
   \<and> snd (snd (add_chunks ''doc-A'' ''a.txt'' [''alpha''] (one_row 1) ''2025-12-27T10:00:00''
          chunks_write_fails fresh_store Map.empty)) ''./vector_store/chunks.json''
       = Some (Partial (ChunksData
           [\<lparr>chunk_id = 0, file_id = ''doc-A'', content = ''alpha'', chunk_index = 0, tokens = 1\<rparr>]))"
  by (simp add: eval_defs chunks_write_fails_def)

section \<open>Validation in \<open>add_chunks\<close>\<close>

text \<open>
  C4, as the code has it. \<open>add_chunks\<close> raises a \<open>ValueError\<close> exactly when the number of
  embedding rows differs from the number of chunks or the embedding dimension differs from
  the configured dimension. When both match, the index has the configured dimension and
  the three writes succeed, it returns without error.
\<close>

theorem add_chunks_validation:
  "((\<exists>m. fst (add_chunks fid fname cks e now io s dk) = Inl (ValueError m)) \<longleftrightarrow>
      (shape0 e \<noteq> length cks \<or> shape1 e \<noteq> dimension s))
   \<and> (shape0 e = length cks \<and> shape1 e = dimension s \<and> index_d (index s) = dimension s
        \<and> io (index_path s) = Written \<and> io (chunks_path s) = Written
        \<and> io (metadata_path s) = Written \<longrightarrow>
          fst (add_chunks fid fname cks e now io s dk) = Inr ())"
  using save_all_ok [of io "inserted fid fname cks e now s" dk]
    add_chunks_ValueError [of fid fname cks e now io s dk]
  by (simp add: add_chunks_valid inserted_paths)

theorem add_chunks_validation_witness:
  "shape0 (one_row 1) = length [''alpha''] \<and> shape1 (one_row 1) = dimension fresh_store
   \<and> index_d (index fresh_store) = dimension fresh_store
   \<and> all_written (index_path fresh_store) = Written
   \<and> all_written (chunks_path fresh_store) = Written
   \<and> all_written (metadata_path fresh_store) = Written
   \<and> fst (add_chunks ''doc-A'' ''a.txt'' [''alpha''] (one_row 1) ''2025-12-27T10:00:00''
            all_written fresh_store Map.empty) = Inr ()
   \<and> (\<nexists>m. fst (add_chunks ''doc-A'' ''a.txt'' [''alpha''] (one_row 1) ''2025-12-27T10:00:00''
            all_written fresh_store Map.empty) = Inl (ValueError m))"
proof -
  note T = add_chunks_validation [of "''doc-A''" "''a.txt''" "[''alpha'']" "one_row 1"
      "''2025-12-27T10:00:00''" all_written fresh_store Map.empty]
  have v: "shape0 (one_row 1) = length [''alpha'']" "shape1 (one_row 1) = dimension fresh_store"
      "index_d (index fresh_store) = dimension fresh_store"
    by (simp_all add: one_row_def shape0_def fresh_store_def IndexHNSWFlat_def)
  have w: "all_written (index_path fresh_store) = Written"
      "all_written (chunks_path fresh_store) = Written"
      "all_written (metadata_path fresh_store) = Written"
    by (simp_all add: all_written_def)
  from T [THEN conjunct2] v w
  have r: "fst (add_chunks ''doc-A'' ''a.txt'' [''alpha''] (one_row 1) ''2025-12-27T10:00:00''
            all_written fresh_store Map.empty) = Inr ()"
    by blast
  from T [THEN conjunct1] v
  have "\<nexists>m. fst (add_chunks ''doc-A'' ''a.txt'' [''alpha''] (one_row 1) ''2025-12-27T10:00:00''
            all_written fresh_store Map.empty) = Inl (ValueError m)"
    by blast
  with v w r show ?thesis by blast
qed

text \<open>
  C4 as stated fails. Two embedding rows of the configured dimension 1536 for a single
  chunk make \<open>add_chunks\<close> raise a \<open>ValueError\<close>, although the dimension matches.
\<close>

theorem add_chunks_count_mismatch:
  "shape1 \<lparr>shape1 = 1536, rows = [axis 1, axis 1]\<rparr> = dimension fresh_store
   \<and> fst (add_chunks ''doc-A'' ''a.txt'' [''alpha''] \<lparr>shape1 = 1536, rows = [axis 1, axis 1]\<rparr>
        ''2025-12-27T10:00:00'' all_written fresh_store Map.empty)
       = Inl (ValueError Number_of_embeddings_must_match_number_of_chunks)"
  by (simp add: add_chunks_def shape0_def fresh_store_def)

section \<open>Similarity scores\<close>







section \<open>The window of a filtered search\<close>

text \<open>
  C10. With a non-empty document filter, every result of \<open>search\<close> is built from one of the
  neighbours that the index returns when asked for \<open>min (top_k * 10) ntotal\<close> of them, and
  belongs to a requested document. So a store can hold a chunk of the requested document
  and the search still return nothing: with ten chunks of document A at the query and one
  chunk of document B opposite to it, the search for one chunk of B returns the empty
  list.
\<close>

theorem filtered_search_window:
  "(truthy f \<and> search hnsw s q top_k f = Inr rs \<longrightarrow>
      (\<forall>r \<in> set rs.
         \<exists>h \<in> set (case hnsw (index s) (normalize_L2 q)
                            (nat (min (top_k * 10) (int (ntotal (index s))))) of
                      (distances, indices) \<Rightarrow> zip distances indices).
           from_hit (chunks s) f h r))
   \<and> length (filter (\<lambda>c. file_id c = ''doc-B'') (chunks crowded_store)) = 1
   \<and> search flat_search crowded_store (axis 1) 1 (Some [''doc-B'']) = Inr []"
proof (intro conjI impI ballI)
  fix r
  assume a: "truthy f \<and> search hnsw s q top_k f = Inr rs" and r: "r \<in> set rs"
  from a have "index_hits hnsw s q top_k f =
      (case hnsw (index s) (normalize_L2 q) (nat (min (top_k * 10) (int (ntotal (index s))))) of
         (distances, indices) \<Rightarrow> zip distances indices)"
    by (simp add: index_hits_def the_k_def)
  with search_hit [of hnsw s q top_k f rs r] a r
  show "\<exists>h \<in> set (case hnsw (index s) (normalize_L2 q)
                            (nat (min (top_k * 10) (int (ntotal (index s))))) of
                      (distances, indices) \<Rightarrow> zip distances indices).
           from_hit (chunks s) f h r" by simp
next
  show "length (filter (\<lambda>c. file_id c = ''doc-B'') (chunks crowded_store)) = 1"
    by (simp add: crowded_chunks)
next
  show "search flat_search crowded_store (axis 1) 1 (Some [''doc-B'']) = Inr []"
    by (rule crowded_search)
qed

theorem filtered_search_window_witness:
  "truthy (Some [''doc-B''])
   \<and> search flat_search crowded_store (axis (- 1)) 1 (Some [''doc-B'']) =
       Inr [\<lparr>hit_content = ''beta'', hit_score = 1, hit_file_id = ''doc-B'', hit_chunk_index = 0\<rparr>]
   \<and> (\<exists>h \<in> set (case flat_search (index crowded_store) (normalize_L2 (axis (- 1)))
                            (nat (min (1 * 10) (int (ntotal (index crowded_store))))) of
                      (distances, indices) \<Rightarrow> zip distances indices).
           from_hit (chunks crowded_store) (Some [''doc-B'']) h
             \<lparr>hit_content = ''beta'', hit_score = 1, hit_file_id = ''doc-B'', hit_chunk_index = 0\<rparr>)"
proof -
  have t: "truthy (Some [''doc-B''])" by (simp add: truthy_def)
  note ev = crowded_filtered_hit
  from filtered_search_window [of "Some [''doc-B'']" flat_search crowded_store "axis (- 1)" 1
      "[\<lparr>hit_content = ''beta'', hit_score = 1, hit_file_id = ''doc-B'', hit_chunk_index = 0\<rparr>]",
      THEN conjunct1] t ev
  have "\<forall>r \<in> set [\<lparr>hit_content = ''beta'', hit_score = 1, hit_file_id = ''doc-B'', hit_chunk_index = 0\<rparr>].
         \<exists>h \<in> set (case flat_search (index crowded_store) (normalize_L2 (axis (- 1)))
                            (nat (min (1 * 10) (int (ntotal (index crowded_store))))) of
                      (distances, indices) \<Rightarrow> zip distances indices).
           from_hit (chunks crowded_store) (Some [''doc-B'']) h r"
    by blast
  then have "\<exists>h \<in> set (case flat_search (index crowded_store) (normalize_L2 (axis (- 1)))
                            (nat (min (1 * 10) (int (ntotal (index crowded_store))))) of
                      (distances, indices) \<Rightarrow> zip distances indices).
           from_hit (chunks crowded_store) (Some [''doc-B'']) h
             \<lparr>hit_content = ''beta'', hit_score = 1, hit_file_id = ''doc-B'', hit_chunk_index = 0\<rparr>"
    by (rule bspec) simp
  with t ev show ?thesis by blast
qed

section \<open>Dropping small chunks\<close>

text \<open>
  C7, as the code has it. For a text that is not blank, \<open>chunk_text\<close> returns the pieces
  of the splitter, whitespace collapsed, that have at least 50 characters, in order; a
  blank text gives no chunk. Every returned chunk has at least 50 characters, with no
  exception for a last or only chunk: when every collapsed piece is shorter, the result is
  empty.
\<close>

theorem chunk_text_keeps_long_pieces:
  "chunk_text splitter text =
     (if text = [] \<or> py_strip text = [] then []
      else filter (\<lambda>c. 50 \<le> length c) (map (\<lambda>c. join '' '' (py_split c)) (splitter text)))
   \<and> (\<forall>c \<in> set (chunk_text splitter text). 50 \<le> length c)
   \<and> ((\<forall>p \<in> set (splitter text). length (join '' '' (py_split p)) < 50) \<longrightarrow>
        chunk_text splitter text = [])"
  by (auto simp: chunk_text_def post_process_filter filter_empty_conv)

theorem chunk_text_keeps_long_pieces_witness:
  "chunk_text (\<lambda>t. [t, ''tail'']) sentence = [sentence]
   \<and> 50 \<le> length sentence
   \<and> length (join '' '' (py_split ''tail'')) < 50
   \<and> chunk_text (\<lambda>t. [''tail'']) ''tail'' = []"
proof -
  note T1 = chunk_text_keeps_long_pieces [of "\<lambda>t. [t, ''tail'']" sentence]
  note T2 = chunk_text_keeps_long_pieces [of "\<lambda>t. [''tail'']" "''tail''"]
  have s: "length (join '' '' (py_split ''tail'')) < 50"
    by (simp add: py_split_def isspace_def)
  then have "\<forall>p \<in> set ((\<lambda>t. [''tail'']) ''tail''). length (join '' '' (py_split p)) < 50"
    by simp
  with T2 [THEN conjunct2, THEN conjunct2] have e: "chunk_text (\<lambda>t. [''tail'']) ''tail'' = []"
    by blast
  from T1 [THEN conjunct2, THEN conjunct1] chunk_text_sentence
  have "50 \<le> length sentence" by simp
  with chunk_text_sentence s e show ?thesis by blast
qed

text \<open>
  C7 as stated fails. For the text \<open>hello\<close>, which the splitter returns as its single
  piece, \<open>chunk_text\<close> returns no chunk at all.
\<close>

theorem chunk_text_drops_only_chunk: "chunk_text (\<lambda>t. [t]) ''hello'' = []"
  by (simp add: chunk_text_def py_strip_def py_split_def isspace_def)

section \<open>The history window and the recap\<close>

text \<open>
  C6, as the code has it. The verbatim turns that \<open>stream_chat_response\<close> hands to
  generation are the last \<open>min N 10\<close> of the \<open>N\<close> turns it receives, and the request that
  \<open>handleSend\<close> posts carries the last \<open>min N 10\<close> of the \<open>N\<close> messages of the conversation.
  The recap message is present exactly when the caller passes a non-empty
  \<open>current_summary\<close>, whatever the number of turns.
\<close>

theorem history_window:
  "length (verbatim_turns (stream_chat_response_messages P q hist current_summary ctx))
     = min (length hist) 10
   \<and> (recap_messages (stream_chat_response_messages P q hist current_summary ctx) \<noteq> []
        \<longleftrightarrow> current_summary \<noteq> [])
   \<and> length (req_history (handleSend_request messages activeFileId t)) = min (length messages) 10"
  by (auto simp: stream_chat_response_messages_def recap_messages_def handleSend_request_def
        length_slice_last Let_def)

text \<open>
  C6 as stated fails. After eleven turns the request of \<open>handleSend\<close> carries ten turns and
  no summary, and the messages prepared from it contain no recap: the summary is empty
  although more than ten turns were made.
\<close>

theorem summary_absent_after_eleven_turns:
  "length eleven_messages = 11
   \<and> length (req_history (handleSend_request eleven_messages None ''next'')) = 10
   \<and> recap_messages (stream_chat_response_messages ''You are Cosmic AI'' ''next''
        (req_history (handleSend_request eleven_messages None ''next'')) '''' []) = []"
  by (simp add: length_eleven stream_chat_response_messages_def recap_messages_def
        handleSend_request_def length_slice_last)

end
